theory Spec2Isabelle
  imports Complex_Main
begin

section \<open>Python values, exceptions and floats\<close>

text \<open>
  The module \<^verbatim>\<open>SEDkit/synphot.py\<close> is embedded function by function.  A Python exception
  is a value of type \<open>exn\<close>; a call that may raise returns \<open>exn + 'a\<close> with \<open>Inl\<close> for the
  exception.

  Python floats are modelled as exact real numbers plus the not-a-number value: finite
  arithmetic is carried out over the reals, so rounding, overflow, underflow and the
  infinities of IEEE doubles are outside the model.  \<open>NaN\<close> is absorbing, as in IEEE
  arithmetic.
\<close>

datatype exn = TypeError | ValueError | IndexError | UnitConversionError | OtherError

datatype pyfloat = Fin real | NaN

datatype pyval = PNone | PInt int | PFloat pyfloat | PStr string | PSeq "pyval list"
  \<comment> \<open>\<open>PSeq\<close> is a list or a tuple: the module never tells them apart\<close>

fun pf_mul :: "pyfloat \<Rightarrow> pyfloat \<Rightarrow> pyfloat" where
  "pf_mul (Fin a) (Fin b) = Fin (a * b)"
| "pf_mul _ _ = NaN"

fun pf_div :: "pyfloat \<Rightarrow> real \<Rightarrow> pyfloat" where
  \<comment> \<open>division by a literal; the module only divides by \<open>-2.5\<close> and \<open>2.5\<close>\<close>
  "pf_div (Fin a) c = Fin (a / c)"
| "pf_div NaN c = NaN"

fun pow10 :: "pyfloat \<Rightarrow> pyfloat" where
  \<comment> \<open>\<^verbatim>\<open>10**x\<close>\<close>
  "pow10 (Fin x) = Fin (10 powr x)"
| "pow10 NaN = NaN"

section \<open>The default parameter grid\<close>

text \<open>
  \<^verbatim>\<open>np.arange(start, stop, step)\<close> has \<open>\<lceil>(stop - start) / step\<rceil>\<close> entries, the \<open>i\<close>-th being
  \<open>start + i * step\<close>.  \<^verbatim>\<open>itertools.product\<close> enumerates with the first iterable outermost.
\<close>

definition arange :: "real \<Rightarrow> real \<Rightarrow> real \<Rightarrow> real list" where
  "arange start stop step =
     map (\<lambda>i. start + real i * step) [0 ..< nat \<lceil>(stop - start) / step\<rceil>]"

definition arange_int :: "int \<Rightarrow> int \<Rightarrow> int \<Rightarrow> int list" where
  "arange_int start stop step =
     map (\<lambda>i. start + int i * step)
       [0 ..< nat \<lceil>real_of_int (stop - start) / real_of_int step\<rceil>]"

fun product :: "'a list list \<Rightarrow> 'a list list" where
  "product [] = [[]]"
| "product (xs # xss) = concat (map (\<lambda>x. map ((#) x) (product xss)) xs)"

definition default_spectra :: "pyval list" where
  "default_spectra =
     (let teff_range = map PInt (arange_int 2000 2550 50);
          feh_range = map (\<lambda>x. PFloat (Fin x)) (arange (-0.5) 1.0 0.5);
          logg_range = map (\<lambda>x. PFloat (Fin x)) (arange 4.5 5.5 0.5);
          ranges = [teff_range, feh_range, logg_range]
      in map PSeq (product ranges))"

definition resolve_spectra :: "pyval \<Rightarrow> pyval" where
  \<comment> \<open>lines 134-139: \<^verbatim>\<open>if spectra==None: ... spectra = list(itertools.product(*ranges))\<close>\<close>
  "resolve_spectra spectra = (if spectra = PNone then PSeq default_spectra else spectra)"

section \<open>Units and quantities\<close>

text \<open>
  An astropy unit is modelled by what the module observes of it: its printed name
  (\<^verbatim>\<open>str(unit)\<close>), the class it is an instance of, its physical dimension as the exponents
  of the base units in a fixed order, and its size in base units.  \<^verbatim>\<open>u.to(v)\<close> gives the
  conversion factor and raises when the dimensions differ.
\<close>

datatype unit_class = IrreducibleUnit | Unit | PrefixUnit | CompositeUnit

record q_unit =
  label :: string
  cls :: unit_class
  dims :: "int list"
  scale :: real

record quantity =
  val :: pyfloat
  unit_of :: q_unit

definition unit_to :: "q_unit \<Rightarrow> q_unit \<Rightarrow> exn + real" where
  "unit_to u v =
     (if u = v then Inr 1
      else if dims u = dims v then Inr (scale u / scale v)
      else Inl UnitConversionError)"

definition quantity_to :: "quantity \<Rightarrow> q_unit \<Rightarrow> exn + quantity" where
  "quantity_to x v =
     (case unit_to (unit_of x) v of
        Inl e \<Rightarrow> Inl e
      | Inr k \<Rightarrow> Inr \<lparr>val = pf_mul (val x) (Fin k), unit_of = v\<rparr>)"

definition um :: q_unit where
  "um = \<lparr>label = ''um'', cls = PrefixUnit, dims = [1, 0, 0], scale = 1 / 10 ^ 6\<rparr>"

definition AA :: q_unit where
  "AA = \<lparr>label = ''Angstrom'', cls = Unit, dims = [1, 0, 0], scale = 1 / 10 ^ 10\<rparr>"

section \<open>Bandpass\<close>

record svo_filter =
  rsr :: "real list \<times> real list"
  ZeroPoint :: pyfloat
  ZeroPointUnit :: string

record bandpass =
  name :: pyval
  wave :: "real list"
  throughput :: "real list"
  waveunits :: string
  wave_units :: q_unit
  eff :: quantity
  svo :: svo_filter

text \<open>
  The collaborators of the module are parameters: the SVO filter registry, pysynphot's
  pivot wavelength and unit factory, astropy's unit parser, pysynphot's spectrum grid and
  renormalisation, the file system, and \<^verbatim>\<open>synthetic_magnitude\<close>, which \<^verbatim>\<open>mag_table\<close> calls and
  the module does not define.
\<close>

record ('s, 'b) env =
  svo_Filter :: "pyval \<Rightarrow> exn + svo_filter"
  pivot :: "real list \<Rightarrow> real list \<Rightarrow> real"
  ps_Units :: "string \<Rightarrow> exn + string"
  q_Unit :: "string \<Rightarrow> exn + q_unit"
  ObsBandpass :: "string \<Rightarrow> exn + 'b"
  Icat :: "string \<Rightarrow> pyval \<Rightarrow> pyval \<Rightarrow> pyval \<Rightarrow> exn + 's"
  renorm :: "'s \<Rightarrow> pyval \<Rightarrow> string \<Rightarrow> 'b \<Rightarrow> exn + 's"
  synthetic_magnitude :: "'s \<Rightarrow> bandpass \<Rightarrow> exn + pyval"
  path_exists :: "string \<Rightarrow> bool"
  glob :: "string \<Rightarrow> string list"

definition Bandpass_init :: "('s, 'b) env \<Rightarrow> pyval \<Rightarrow> exn + bandpass" where
  \<comment> \<open>\<^verbatim>\<open>Bandpass.__init__(self, name)\<close>, lines 22-44\<close>
  "Bandpass_init E nm =
     (case svo_Filter E nm of
        Inl e \<Rightarrow> Inl e
      | Inr filt \<Rightarrow>
          (let w = map (\<lambda>x. x * 10000) (fst (rsr filt));
               thru = snd (rsr filt)
           in case ps_Units E ''Angstrom'' of
                Inl e \<Rightarrow> Inl e
              | Inr wu \<Rightarrow>
                  Inr \<lparr>name = nm, wave = w, throughput = thru, waveunits = wu,
                       wave_units = AA, eff = \<lparr>val = Fin (pivot E w thru), unit_of = AA\<rparr>,
                       svo = filt\<rparr>))"

fun Bandpass :: "('s, 'b) env \<Rightarrow> pyval list \<Rightarrow> exn + bandpass" where
  \<comment> \<open>the call \<^verbatim>\<open>Bandpass(*args)\<close>: \<^verbatim>\<open>__init__\<close> takes exactly one argument besides \<^verbatim>\<open>self\<close>\<close>
  "Bandpass E [nm] = Bandpass_init E nm"
| "Bandpass E _ = Inl TypeError"

datatype wu_arg = AUnit q_unit | NotAUnit

definition isinstance_unit :: "q_unit \<Rightarrow> bool" where
  \<comment> \<open>\<^verbatim>\<open>isinstance(wave_units, (q.core.PrefixUnit, q.core.Unit, q.core.CompositeUnit))\<close>\<close>
  "isinstance_unit u = (cls u = PrefixUnit \<or> cls u = Unit \<or> cls u = CompositeUnit)"

definition set_wave_units :: "('s, 'b) env \<Rightarrow> bandpass \<Rightarrow> wu_arg \<Rightarrow> exn option \<times> bandpass" where
  \<comment> \<open>the \<^verbatim>\<open>wave_units\<close> setter, lines 61-87; returns the exception raised, if any, and the
      bandpass as the call leaves it\<close>
  "set_wave_units E self wu =
     (case wu of
        NotAUnit \<Rightarrow> (Some TypeError, self)
      | AUnit u \<Rightarrow>
          if isinstance_unit u then
            (case unit_to u um of
               Inl _ \<Rightarrow> (Some TypeError, self)
             | Inr _ \<Rightarrow>
                 (case ps_Units E (label u) of
                    Inl e \<Rightarrow> (Some e, self)
                  | Inr w \<Rightarrow>
                      (let self1 = self\<lparr>waveunits := w\<rparr>
                       in case quantity_to (eff self1) u of
                            Inl e \<Rightarrow> (Some e, self1)
                          | Inr x \<Rightarrow> (None, self1\<lparr>eff := x, wave_units := u\<rparr>))))
          else (Some TypeError, self))"

section \<open>mag2flux\<close>

datatype num = NInt int | NFloat pyfloat

datatype mag_arg = MFloat pyfloat | MInt int | MSeq "num list"
  \<comment> \<open>the docstring's \<^verbatim>\<open>mag: float, sequence\<close>, and a bare \<^verbatim>\<open>int\<close>\<close>

fun to_float :: "num \<Rightarrow> pyfloat" where
  "to_float (NInt n) = Fin (real_of_int n)"
| "to_float (NFloat x) = x"

fun subscript :: "mag_arg \<Rightarrow> nat \<Rightarrow> exn + num" where
  \<comment> \<open>\<^verbatim>\<open>mag[i]\<close>\<close>
  "subscript (MSeq xs) i = (if i < length xs then Inr (xs ! i) else Inl IndexError)"
| "subscript (MFloat _) i = Inl TypeError"
| "subscript (MInt _) i = Inl TypeError"

definition zero_point :: "(string \<Rightarrow> exn + q_unit) \<Rightarrow> bandpass \<Rightarrow> q_unit \<Rightarrow> exn + quantity" where
  \<comment> \<open>line 107\<close>
  "zero_point qU bp units =
     (case qU (ZeroPointUnit (svo bp)) of
        Inl e \<Rightarrow> Inl e
      | Inr u \<Rightarrow> quantity_to \<lparr>val = ZeroPoint (svo bp), unit_of = u\<rparr> units)"

definition mag2flux ::
  "(string \<Rightarrow> exn + q_unit) \<Rightarrow> mag_arg \<Rightarrow> bandpass \<Rightarrow> q_unit \<Rightarrow> exn + quantity \<times> quantity" where
  \<comment> \<open>lines 103-111\<close>
  "mag2flux qU mag bp units =
     (let mag1 = (case mag of MFloat x \<Rightarrow> MSeq [NFloat x, NFloat NaN] | _ \<Rightarrow> mag)
      in case zero_point qU bp units of
           Inl e \<Rightarrow> Inl e
         | Inr zp \<Rightarrow>
             (case subscript mag1 0 of
                Inl e \<Rightarrow> Inl e
              | Inr m0 \<Rightarrow>
                  (case quantity_to
                          (zp\<lparr>val := pf_mul (val zp) (pow10 (pf_div (to_float m0) (- 2.5)))\<rparr>)
                          units of
                     Inl e \<Rightarrow> Inl e
                   | Inr f \<Rightarrow>
                       (case subscript mag1 1 of
                          Inl e \<Rightarrow> Inl e
                        | Inr m1 \<Rightarrow>
                            (case quantity_to
                                    (f\<lparr>val := pf_div (pf_mul (pf_mul (val f) (to_float m1))
                                                    (Fin (ln 10))) 2.5\<rparr>)
                                    units of
                               Inl e \<Rightarrow> Inl e
                             | Inr sig_f \<Rightarrow> Inr (f, sig_f))))))"

section \<open>Strings and paths\<close>

fun str_split :: "char \<Rightarrow> string \<Rightarrow> string list" where
  \<comment> \<open>\<^verbatim>\<open>s.split(c)\<close> for a one-character separator\<close>
  "str_split c [] = [[]]"
| "str_split c (x # xs) =
     (if x = c then [] # str_split c xs
      else (case str_split c xs of [] \<Rightarrow> [[x]] | w # ws \<Rightarrow> (x # w) # ws))"

definition neg_index :: "'a list \<Rightarrow> nat \<Rightarrow> exn + 'a" where
  \<comment> \<open>\<^verbatim>\<open>xs[-k]\<close> for \<open>k \<ge> 1\<close>\<close>
  "neg_index xs k = (if k \<le> length xs then Inr (xs ! (length xs - k)) else Inl IndexError)"

definition endswith :: "string \<Rightarrow> string \<Rightarrow> bool" where
  "endswith s suf = (length suf \<le> length s \<and> drop (length s - length suf) s = suf)"

definition rstrip :: "char \<Rightarrow> string \<Rightarrow> string" where
  "rstrip c s = rev (dropWhile (\<lambda>x. x = c) (rev s))"

definition dirname :: "string \<Rightarrow> string" where
  \<comment> \<open>\<^verbatim>\<open>posixpath.dirname\<close>: the part up to the last slash, trailing slashes removed unless
      it consists of slashes only\<close>
  "dirname p =
     (let head = rev (dropWhile (\<lambda>x. x \<noteq> CHR ''/'') (rev p))
      in if filter (\<lambda>x. x \<noteq> CHR ''/'') head = [] then head else rstrip CHR ''/'' head)"

definition path_join :: "string \<Rightarrow> string \<Rightarrow> string" where
  \<comment> \<open>\<^verbatim>\<open>posixpath.join(a, b)\<close>\<close>
  "path_join a b =
     (if take 1 b = ''/'' then b
      else if a = [] \<or> endswith a ''/'' then a @ b
      else a @ ''/'' @ b)"

section \<open>Iteration and unpacking\<close>

fun py_iter :: "pyval \<Rightarrow> exn + pyval list" where
  \<comment> \<open>the items a \<^verbatim>\<open>for\<close> loop or a tuple assignment draws from a value\<close>
  "py_iter (PSeq xs) = Inr xs"
| "py_iter (PStr s) = Inr (map (\<lambda>c. PStr [c]) s)"
| "py_iter _ = Inl TypeError"

definition unpack2 :: "pyval \<Rightarrow> exn + pyval \<times> pyval" where
  \<comment> \<open>\<^verbatim>\<open>filt, inst = v\<close>\<close>
  "unpack2 v =
     (case py_iter v of
        Inl e \<Rightarrow> Inl e
      | Inr xs \<Rightarrow> (case xs of [a, b] \<Rightarrow> Inr (a, b) | _ \<Rightarrow> Inl ValueError))"

definition unpack3 :: "pyval \<Rightarrow> exn + pyval \<times> pyval \<times> pyval" where
  \<comment> \<open>\<^verbatim>\<open>teff, feh, logg = v\<close>\<close>
  "unpack3 v =
     (case py_iter v of
        Inl e \<Rightarrow> Inl e
      | Inr xs \<Rightarrow> (case xs of [a, b, c] \<Rightarrow> Inr (a, b, c) | _ \<Rightarrow> Inl ValueError))"

fun map_exn :: "('a \<Rightarrow> exn + 'b) \<Rightarrow> 'a list \<Rightarrow> exn + 'b list" where
  \<comment> \<open>a list comprehension whose element expression may raise\<close>
  "map_exn f [] = Inr []"
| "map_exn f (x # xs) =
     (case f x of
        Inl e \<Rightarrow> Inl e
      | Inr y \<Rightarrow> (case map_exn f xs of Inl e \<Rightarrow> Inl e | Inr ys \<Rightarrow> Inr (y # ys)))"

section \<open>Tables\<close>

text \<open>
  An astropy table is its list of named columns.  \<^verbatim>\<open>astropy.table.vstack\<close> refuses an empty
  list of tables, returns a single table as it is, and otherwise stacks the columns in
  order of first appearance, a table without a column contributing masked entries
  (\<open>PNone\<close> here).
\<close>

type_synonym table = "(pyval \<times> pyval list) list"

datatype event = Print "pyval list" | Write string table

definition table_new :: "pyval \<Rightarrow> pyval \<Rightarrow> pyval \<Rightarrow> table" where
  \<comment> \<open>line 177\<close>
  "table_new teff feh logg =
     [(PStr ''teff'', [teff]), (PStr ''feh'', [feh]), (PStr ''logg'', [logg])]"

fun set_column :: "table \<Rightarrow> pyval \<Rightarrow> pyval list \<Rightarrow> table" where
  \<comment> \<open>\<^verbatim>\<open>table[key] = col\<close>\<close>
  "set_column [] k c = [(k, c)]"
| "set_column ((k', c') # t) k c =
     (if k' = k then (k, c) # t else (k', c') # set_column t k c)"

definition nrows :: "table \<Rightarrow> nat" where
  "nrows t = (case t of [] \<Rightarrow> 0 | (k, c) # _ \<Rightarrow> length c)"

definition column_or_masked :: "table \<Rightarrow> pyval \<Rightarrow> pyval list" where
  "column_or_masked t k = (case map_of t k of Some c \<Rightarrow> c | None \<Rightarrow> replicate (nrows t) PNone)"

definition vstack :: "table list \<Rightarrow> exn + table" where
  "vstack ts =
     (case ts of
        [] \<Rightarrow> Inl TypeError
      | [t] \<Rightarrow> Inr t
      | _ \<Rightarrow> Inr (map (\<lambda>k. (k, concat (map (\<lambda>t. column_or_masked t k) ts)))
                   (remdups (concat (map (map fst) ts)))))"

section \<open>mag\_table\<close>

datatype bandpasses_arg = BStr string | BSeq "pyval list" | BOther
  \<comment> \<open>a string, a list or tuple, or anything else (such as the default, a table of filters)\<close>

definition file_tokens :: "string \<Rightarrow> exn + pyval" where
  \<comment> \<open>line 146: \<^verbatim>\<open>(i.split('.')[-3], i.split('.')[-4].split('_')[-1])\<close>\<close>
  "file_tokens i =
     (case neg_index (str_split CHR ''.'' i) 3 of
        Inl e \<Rightarrow> Inl e
      | Inr a \<Rightarrow>
          (case neg_index (str_split CHR ''.'' i) 4 of
             Inl e \<Rightarrow> Inl e
           | Inr b \<Rightarrow>
               (case neg_index (str_split CHR ''_'' b) 1 of
                  Inl e \<Rightarrow> Inl e
                | Inr c \<Rightarrow> Inr (PSeq [PStr a, PStr c]))))"

definition from_directory :: "('s, 'b) env \<Rightarrow> bandpasses_arg \<Rightarrow> exn + bandpasses_arg" where
  \<comment> \<open>lines 142-146\<close>
  "from_directory E bandpasses =
     (case bandpasses of
        BStr d \<Rightarrow>
          if path_exists E d then
            (case map_exn file_tokens (glob E (path_join d ''*'')) of
               Inl e \<Rightarrow> Inl e
             | Inr xs \<Rightarrow> Inr (BSeq xs))
          else Inr bandpasses
      | _ \<Rightarrow> Inr bandpasses)"

definition make_bandpasses ::
  "('s, 'b) env \<Rightarrow> bandpasses_arg \<Rightarrow> exn + bandpass list option" where
  \<comment> \<open>lines 149-154; \<open>None\<close> is the \<^verbatim>\<open>else\<close> branch\<close>
  "make_bandpasses E bandpasses =
     (case bandpasses of
        BSeq xs \<Rightarrow>
          (case map_exn (\<lambda>x. case unpack2 x of
                                Inl e \<Rightarrow> Inl e
                              | Inr (filt, inst) \<Rightarrow> Bandpass E [filt, inst]) xs of
             Inl e \<Rightarrow> Inl e
           | Inr bps \<Rightarrow> Inr (Some bps))
      | _ \<Rightarrow> Inr None)"

fun add_mags :: "('s, 'b) env \<Rightarrow> 's \<Rightarrow> bandpass list \<Rightarrow> table \<Rightarrow> exn + table" where
  \<comment> \<open>lines 180-186\<close>
  "add_mags E spectrum [] t = Inr t"
| "add_mags E spectrum (bp # bps) t =
     (case synthetic_magnitude E spectrum bp of
        Inl e \<Rightarrow> Inl e
      | Inr mag \<Rightarrow> add_mags E spectrum bps (set_column t (name bp) [mag]))"

record loop_state =
  tables :: "table list"
  out :: "event list"

fun spectra_loop ::
  "('s, 'b) env \<Rightarrow> string \<Rightarrow> pyval \<Rightarrow> 'b \<Rightarrow> bandpass list \<Rightarrow> pyval list \<Rightarrow> loop_state
     \<Rightarrow> exn option \<times> loop_state" where
  \<comment> \<open>lines 162-188; returns the exception that ended the loop, if any, and the state\<close>
  "spectra_loop E models jmag jband bps [] st = (None, st)"
| "spectra_loop E models jmag jband bps (x # xs) st =
     (case unpack3 x of
        Inl e \<Rightarrow> (Some e, st)
      | Inr (teff, feh, logg) \<Rightarrow>
          (case Icat E models teff feh logg of
             Inl e \<Rightarrow> (Some e, st)
           | Inr spectrum \<Rightarrow>
               (case renorm E spectrum jmag ''vegamag'' jband of
                  Inl _ \<Rightarrow>
                    spectra_loop E models jmag jband bps xs
                      (st\<lparr>out := out st @ [Print [PStr ''Error:'', PSeq [teff, feh, logg]]]\<rparr>)
                | Inr spectrum1 \<Rightarrow>
                    (let st1 = st\<lparr>out := out st @ [Print [PSeq [teff, feh, logg]]]\<rparr>
                     in case add_mags E spectrum1 bps (table_new teff feh logg) of
                          Inl e \<Rightarrow> (Some e, st1)
                        | Inr t \<Rightarrow>
                            spectra_loop E models jmag jband bps xs
                              (st1\<lparr>tables := tables st1 @ [t]\<rparr>)))))"

definition save_or_return ::
  "('s, 'b) env \<Rightarrow> table \<Rightarrow> pyval \<Rightarrow> (exn + table option) \<times> event list" where
  \<comment> \<open>lines 194-203; \<^verbatim>\<open>os.path.dirname\<close> raises on anything but a path\<close>
  "save_or_return E t save =
     (case save of
        PStr s \<Rightarrow>
          if path_exists E (dirname s) \<and> CHR ''.'' \<in> set s then
            (let s1 = (if endswith s ''.csv'' then s
                       else (case str_split CHR ''.'' s of [] \<Rightarrow> [] | w # _ \<Rightarrow> w) @ ''.csv'')
             in (Inr None, [Write s1 t]))
          else (Inr (Some t), [])
      | _ \<Rightarrow> (Inl TypeError, []))"

definition mag_table ::
  "('s, 'b) env \<Rightarrow> pyval \<Rightarrow> bandpasses_arg \<Rightarrow> string \<Rightarrow> pyval \<Rightarrow> pyval
     \<Rightarrow> (exn + table option) \<times> event list" where
  \<comment> \<open>lines 113-203: the exception raised or the value returned, and what was printed and
      written\<close>
  "mag_table E spectra bandpasses models jmag save =
     (case ObsBandpass E ''j'' of
        Inl e \<Rightarrow> (Inl e, [])
      | Inr jband \<Rightarrow>
          (case from_directory E bandpasses of
             Inl e \<Rightarrow> (Inl e, [])
           | Inr bandpasses1 \<Rightarrow>
               (case make_bandpasses E bandpasses1 of
                  Inl e \<Rightarrow> (Inl e, [])
                | Inr None \<Rightarrow>
                    (Inr None,
                     [Print [PStr (''Please provide a list of (filter,instrument) tuples '' @
                                   ''or a directory of filters.'')]])
                | Inr (Some bps) \<Rightarrow>
                    (let st0 = \<lparr>tables = [],
                                out = [Print [PStr ''Calculating synthetic mags for...'']]\<rparr>
                     in case py_iter (resolve_spectra spectra) of
                          Inl e \<Rightarrow> (Inl e, out st0)
                        | Inr xs \<Rightarrow>
                            (case spectra_loop E models jmag jband bps xs st0 of
                               (Some e, st) \<Rightarrow> (Inl e, out st)
                             | (None, st) \<Rightarrow>
                                 (case vstack (tables st) of
                                    Inl e \<Rightarrow> (Inl e, out st)
                                  | Inr t \<Rightarrow>
                                      (case save_or_return E t save of
                                         (r, ev) \<Rightarrow> (r, out st @ ev))))))))"

section \<open>Example values\<close>

text \<open>
  A flux-density unit, a unit of time, a filter with the zero point of a J band, and an
  environment whose model grid can be renormalised at an effective temperature of 2000
  only.
\<close>

definition flam :: q_unit where
  "flam = \<lparr>label = ''erg / (Angstrom cm2 s)'', cls = CompositeUnit, dims = [- 1, 1, - 3],
           scale = 10 ^ 7\<rparr>"

definition minute :: q_unit where
  "minute = \<lparr>label = ''min'', cls = Unit, dims = [0, 0, 1], scale = 60\<rparr>"


definition example_filter :: svo_filter where
  "example_filter =
     \<lparr>rsr = ([1.1, 1.25, 1.4], [0, 1, 0]), ZeroPoint = Fin (3129 / 10 ^ 13),
      ZeroPointUnit = ''erg/cm2/s/A''\<rparr>"

definition example_env :: "(pyval, unit) env" where
  "example_env =
     \<lparr>svo_Filter = (\<lambda>n. if n = PStr ''2MASS.J'' then Inr example_filter else Inl OtherError),
      pivot = (\<lambda>w t. 12350),
      ps_Units = (\<lambda>s. if s = ''um'' then Inr ''micron''
                       else if s = ''Angstrom'' then Inr ''angstrom'' else Inl ValueError),
      q_Unit = (\<lambda>s. if s = ''erg/cm2/s/A'' then Inr flam else Inl ValueError),
      ObsBandpass = (\<lambda>s. Inr ()),
      Icat = (\<lambda>m teff feh logg. Inr teff),
      renorm = (\<lambda>s jmag system jband. if s = PInt 2000 then Inr s else Inl OtherError),
      synthetic_magnitude = (\<lambda>s bp. Inr (PFloat (Fin 10))),
      path_exists = (\<lambda>p. p = ''out''),
      glob = (\<lambda>p. [])\<rparr>"

definition example_bandpass :: bandpass where
  "example_bandpass =
     \<lparr>name = PStr ''2MASS.J'', wave = [11000, 12500, 14000], throughput = [0, 1, 0],
      waveunits = ''angstrom'', wave_units = AA, eff = \<lparr>val = Fin 12350, unit_of = AA\<rparr>,
      svo = example_filter\<rparr>"

definition cool_point :: pyval where
  "cool_point = PSeq [PInt 2000, PFloat (Fin 0), PFloat (Fin 5)]"

definition hot_point :: pyval where
  "hot_point = PSeq [PInt 9000, PFloat (Fin 0), PFloat (Fin 5)]"

section \<open>The default grid\<close>

text \<open>
  Claim C6.  When \<^verbatim>\<open>spectra\<close> is \<^verbatim>\<open>None\<close>, the grid is the cartesian product of the effective
  temperatures 2000, 2050, ..., 2500, the metallicities -0.5, 0.0, 0.5 and the surface
  gravities 4.5, 5.0, enumerated with the temperature outermost, then the metallicity,
  then the gravity.
\<close>

theorem default_grid_is_cartesian_product:
  "resolve_spectra PNone =
     PSeq [PSeq [PInt t, PFloat (Fin f), PFloat (Fin g)].
             t \<leftarrow> [2000, 2050, 2100, 2150, 2200, 2250, 2300, 2350, 2400, 2450, 2500],
             f \<leftarrow> [- 0.5, 0.0, 0.5], g \<leftarrow> [4.5, 5.0]]"
proof -
  have a1: "arange_int 2000 2550 50
              = [2000, 2050, 2100, 2150, 2200, 2250, 2300, 2350, 2400, 2450, 2500]"
    by (simp add: arange_int_def upt_conv_Cons)
  have a2: "arange (-0.5) 1.0 0.5 = [- 1 / 2, 0, 1 / 2]"
    by (simp add: arange_def upt_conv_Cons)
  have a3: "arange 4.5 5.5 0.5 = [9 / 2, 5]"
    by (simp add: arange_def upt_conv_Cons)
  have "default_spectra =
          map PSeq (product
            [map PInt [2000, 2050, 2100, 2150, 2200, 2250, 2300, 2350, 2400, 2450, 2500],
             map (\<lambda>x. PFloat (Fin x)) [- 1 / 2, 0, 1 / 2],
             map (\<lambda>x. PFloat (Fin x)) [9 / 2, 5]])"
    unfolding default_spectra_def Let_def a1 a2 a3 ..
  then show ?thesis
    by (simp add: resolve_spectra_def)
qed

section \<open>Properties of mag2flux\<close>







text \<open>
  Claim C10.  Only a float magnitude is wrapped into the pair of the value and a
  not-a-number uncertainty.  A bare integer is left as it is, its subscript raises, and
  \<^verbatim>\<open>mag2flux\<close> returns no result: it raises the zero point's conversion error if there is
  one and \<^verbatim>\<open>TypeError\<close> otherwise.
\<close>

theorem mag2flux_wraps_float_only:
  "mag2flux qU (MFloat x) bp u = mag2flux qU (MSeq [NFloat x, NFloat NaN]) bp u \<and>
   subscript (MInt n) 0 = Inl TypeError \<and>
   mag2flux qU (MInt n) bp u =
     Inl (case zero_point qU bp u of Inl e \<Rightarrow> e | Inr _ \<Rightarrow> TypeError)"
  by (simp add: mag2flux_def split: sum.splits)






section \<open>Properties of the wave\_units setter\<close>

text \<open>
  Claim C7.  Assigning a unit whose dimension is not that of a length raises \<^verbatim>\<open>TypeError\<close>
  and leaves the bandpass as it was: the wavelength array, the effective wavelength and
  the current unit are those of before.
\<close>

theorem set_wave_units_rejects_non_length:
  assumes "dims u \<noteq> dims um"
  shows "set_wave_units E self (AUnit u) = (Some TypeError, self)"
proof -
  have "u \<noteq> um" using assms by auto
  then have "unit_to u um = Inl UnitConversionError"
    using assms by (simp add: unit_to_def)
  then show ?thesis by (simp add: set_wave_units_def)
qed

theorem set_wave_units_rejects_non_length_witness:
  "dims minute \<noteq> dims um
   \<and> set_wave_units example_env example_bandpass (AUnit minute)
       = (Some TypeError, example_bandpass)"
  using set_wave_units_rejects_non_length [of minute example_env example_bandpass]
  by (simp add: minute_def um_def)

text \<open>What is not a unit object is rejected in the same way, by the first check.\<close>

lemma set_wave_units_rejects_non_unit:
  "set_wave_units E self NotAUnit = (Some TypeError, self)"
  by (simp add: set_wave_units_def)






section \<open>Properties of mag\_table\<close>

lemma example_env_simps:
  "Icat example_env m teff feh logg = Inr teff"
  "renorm example_env s jmag sys jb = (if s = PInt 2000 then Inr s else Inl OtherError)"
  "ObsBandpass example_env b = Inr ()"
  "path_exists example_env p = (p = ''out'')"
  by (simp_all add: example_env_def)

lemma unpack3_cool: "unpack3 cool_point = Inr (PInt 2000, PFloat (Fin 0), PFloat (Fin 5))"
  by (simp add: unpack3_def cool_point_def)

lemma unpack3_hot: "unpack3 hot_point = Inr (PInt 9000, PFloat (Fin 0), PFloat (Fin 5))"
  by (simp add: unpack3_def hot_point_def)

lemma vstack_Nil: "vstack [] = Inl TypeError"
  by (simp add: vstack_def)

lemma make_bandpasses_empty: "make_bandpasses E (BSeq []) = Inr (Some [])"
  by (simp add: make_bandpasses_def)

text \<open>A list of bandpasses with an entry never gets past the construction of the first.\<close>

lemma make_bandpasses_raises: "\<exists>e. make_bandpasses E (BSeq (x # xs)) = Inl e"
  by (auto simp: make_bandpasses_def split: sum.splits prod.splits)

text \<open>The loop over a grid in two parts: the second part starts where the first ends.\<close>

lemma spectra_loop_append:
  "spectra_loop E models jmag jband bps (xs @ ys) st =
     (case spectra_loop E models jmag jband bps xs st of
        (None, st1) \<Rightarrow> spectra_loop E models jmag jband bps ys st1
      | (Some e, st1) \<Rightarrow> (Some e, st1))"
  by (induction xs arbitrary: st)
    (auto simp: Let_def split: sum.splits prod.splits option.splits)

lemma loop_cool:
  "spectra_loop example_env ''phoenix'' (PInt 10) () [] [cool_point] st
     = (None, st\<lparr>out := out st @ [Print [cool_point]],
                 tables := tables st @
                   [table_new (PInt 2000) (PFloat (Fin 0)) (PFloat (Fin 5))]\<rparr>)"
  by (simp add: unpack3_cool example_env_simps Let_def) (simp add: cool_point_def)

text \<open>
  Claim C9.  When the loop reaches a grid point whose renormalisation raises, it prints
  the diagnostic for that point, adds no table for it, and goes on with the remaining
  points from that state.
\<close>

theorem renorm_failure_skips_triple:
  assumes "spectra_loop E models jmag jband bps pre st = (None, st1)"
    and "unpack3 x = Inr (teff, feh, logg)"
    and "Icat E models teff feh logg = Inr spectrum"
    and "renorm E spectrum jmag ''vegamag'' jband = Inl e"
  shows "spectra_loop E models jmag jband bps (pre @ x # rest) st =
           spectra_loop E models jmag jband bps rest
             (st1\<lparr>out := out st1 @ [Print [PStr ''Error:'', PSeq [teff, feh, logg]]]\<rparr>)"
  using assms by (simp add: spectra_loop_append)

theorem renorm_failure_skips_triple_witness:
  "spectra_loop example_env ''phoenix'' (PInt 10) () [] [cool_point] \<lparr>tables = [], out = []\<rparr>
     = (None, \<lparr>tables = [table_new (PInt 2000) (PFloat (Fin 0)) (PFloat (Fin 5))],
               out = [Print [cool_point]]\<rparr>)
   \<and> unpack3 hot_point = Inr (PInt 9000, PFloat (Fin 0), PFloat (Fin 5))
   \<and> Icat example_env ''phoenix'' (PInt 9000) (PFloat (Fin 0)) (PFloat (Fin 5))
       = Inr (PInt 9000)
   \<and> renorm example_env (PInt 9000) (PInt 10) ''vegamag'' () = Inl OtherError
   \<and> spectra_loop example_env ''phoenix'' (PInt 10) () []
        ([cool_point] @ hot_point # [cool_point]) \<lparr>tables = [], out = []\<rparr>
     = (None, \<lparr>tables = [table_new (PInt 2000) (PFloat (Fin 0)) (PFloat (Fin 5)),
                          table_new (PInt 2000) (PFloat (Fin 0)) (PFloat (Fin 5))],
               out = [Print [cool_point], Print [PStr ''Error:'', hot_point],
                      Print [cool_point]]\<rparr>)"
proof -
  have h1: "spectra_loop example_env ''phoenix'' (PInt 10) () [] [cool_point]
              \<lparr>tables = [], out = []\<rparr>
     = (None, \<lparr>tables = [table_new (PInt 2000) (PFloat (Fin 0)) (PFloat (Fin 5))],
               out = [Print [cool_point]]\<rparr>)"
    by (simp add: loop_cool del: spectra_loop.simps)
  have h3: "Icat example_env ''phoenix'' (PInt 9000) (PFloat (Fin 0)) (PFloat (Fin 5))
              = Inr (PInt 9000)"
    by (simp add: example_env_simps)
  have h4: "renorm example_env (PInt 9000) (PInt 10) ''vegamag'' () = Inl OtherError"
    by (simp add: example_env_simps)
  show ?thesis
    using renorm_failure_skips_triple [OF h1 unpack3_hot h3 h4, of "[cool_point]"]
    by (simp add: h1 unpack3_hot h3 h4 loop_cool del: spectra_loop.simps)
      (simp add: hot_point_def)
qed

text \<open>
  Claim C1.  The grid has one point and its renormalisation raises; there are no
  bandpasses and \<^verbatim>\<open>save\<close> names no existing directory.  The point is skipped, the list of
  tables stays empty, stacking it raises, and \<^verbatim>\<open>mag_table\<close> raises instead of returning an
  empty table.
\<close>

theorem mag_table_all_fail_raises:
  "mag_table example_env (PSeq [hot_point]) (BSeq []) ''phoenix'' (PInt 10) (PStr ''table'')
     = (Inl TypeError,
        [Print [PStr ''Calculating synthetic mags for...''],
         Print [PStr ''Error:'', hot_point]])"
  by (simp add: mag_table_def from_directory_def make_bandpasses_empty resolve_spectra_def
      unpack3_hot vstack_Nil example_env_simps Let_def) (simp add: hot_point_def)

text \<open>The same in general: a run that ends its loop without a table raises.\<close>

lemma mag_table_no_rows:
  assumes "ObsBandpass E ''j'' = Inr jband"
    and "from_directory E bandpasses = Inr b1"
    and "make_bandpasses E b1 = Inr (Some bps)"
    and "py_iter (resolve_spectra spectra) = Inr xs"
    and "spectra_loop E models jmag jband bps xs
           \<lparr>tables = [], out = [Print [PStr ''Calculating synthetic mags for...'']]\<rparr>
           = (None, st)"
    and "tables st = []"
  shows "mag_table E spectra bandpasses models jmag save = (Inl TypeError, out st)"
  using assms by (simp add: mag_table_def vstack_Nil Let_def)

text \<open>
  Claim C2.  Without a \<^verbatim>\<open>save\<close> argument \<^verbatim>\<open>mag_table\<close> never returns a table, whatever the
  other arguments and the collaborators are: where the run gets as far as the test of
  \<^verbatim>\<open>save\<close>, taking the directory name of \<^verbatim>\<open>None\<close> raises.
\<close>

theorem mag_table_no_save_never_returns_table:
  "fst (mag_table E spectra bandpasses models jmag PNone) \<noteq> Inr (Some t)"
  by (auto simp: mag_table_def save_or_return_def Let_def
      split: sum.splits option.splits prod.splits)

lemma mag_table_no_save_example:
  "mag_table example_env (PSeq [cool_point]) (BSeq []) ''phoenix'' (PInt 10) PNone
     = (Inl TypeError,
        [Print [PStr ''Calculating synthetic mags for...''], Print [cool_point]])"
  by (simp add: mag_table_def from_directory_def make_bandpasses_empty resolve_spectra_def
      loop_cool vstack_def save_or_return_def example_env_simps Let_def
      del: spectra_loop.simps)

text \<open>With a path for \<^verbatim>\<open>save\<close>, the table is either written or returned.\<close>

lemma save_or_return_persists:
  assumes "path_exists E (dirname s)" and "CHR ''.'' \<in> set s"
  shows "\<exists>p. save_or_return E t (PStr s) = (Inr None, [Write p t])"
  using assms by (simp add: save_or_return_def Let_def)

lemma save_or_return_returns:
  assumes "\<not> (path_exists E (dirname s) \<and> CHR ''.'' \<in> set s)"
  shows "save_or_return E t (PStr s) = (Inr (Some t), [])"
  using assms by (auto simp add: save_or_return_def Let_def)

text \<open>
  Claim C3.  On the grid \<^verbatim>\<open>[(2000, 0.0, 5.0)]\<close> with the bandpasses \<^verbatim>\<open>['J']\<close>, \<^verbatim>\<open>mag_table\<close>
  raises before any spectrum is fetched: \<^verbatim>\<open>'J'\<close> does not unpack into a filter and an
  instrument.  With the pair \<^verbatim>\<open>('J', '2MASS')\<close> it raises as well, \<^verbatim>\<open>Bandpass\<close> taking one
  argument.
\<close>

theorem mag_table_single_J_raises:
  "mag_table E (PSeq [cool_point]) (BSeq [PStr ''J'']) ''phoenix'' (PInt 10) save
     = (Inl (case ObsBandpass E ''j'' of Inl e \<Rightarrow> e | Inr _ \<Rightarrow> ValueError), [])
   \<and> mag_table E (PSeq [cool_point]) (BSeq [PSeq [PStr ''J'', PStr ''2MASS'']]) ''phoenix''
       (PInt 10) save
     = (Inl (case ObsBandpass E ''j'' of Inl e \<Rightarrow> e | Inr _ \<Rightarrow> TypeError), [])"
  by (simp add: mag_table_def from_directory_def make_bandpasses_def unpack2_def
      split: sum.splits)

end
